theory Spec2Isabelle
  imports Main
begin

section \<open>The C++ allocator contract (\<open>rmm/mr/memory_resource.hpp\<close>)\<close>

subsection \<open>Memory kinds and object references\<close>

text \<open>
  \<open>enum class memory_kind\<close>, with its four enumerators in the order of the header.
\<close>

datatype memory_kind = device | unified | pinned | host

text \<open>
  Objects are identified by their address; \<open>this == &other\<close> compares addresses.
  \<open>size_t\<close> values and raw storage pointers are natural numbers (no arithmetic is
  performed on them in the header).
\<close>

type_synonym addr = nat
type_synonym size_t = nat
type_synonym pointer = nat

text \<open>
  A reference to an object of a class derived from \<open>memory_resource<_Kind, _Context>\<close>:
  its address, the static member \<open>kind = _Kind\<close> of its class, and its final overrider
  of the virtual \<open>do_is_equal\<close>. \<open>None\<close> stands for a class that keeps the base
  definition (identity comparison); \<open>Some f\<close> for a class that overrides it, \<open>f\<close>
  being applied to the address of the other resource.
\<close>

record memory_resource =
  address :: addr
  kind :: memory_kind
  do_is_equal_override :: "(addr \<Rightarrow> bool) option"

text \<open>\<open>virtual bool do_is_equal(memory_resource const&) const noexcept\<close>: the base
  definition is \<open>return this == &__other;\<close>.\<close>

definition do_is_equal :: "memory_resource \<Rightarrow> memory_resource \<Rightarrow> bool" where
  "do_is_equal self other =
     (case do_is_equal_override self of
        None \<Rightarrow> address self = address other
      | Some f \<Rightarrow> f (address other))"

text \<open>\<open>bool is_equal(memory_resource const& __other) const noexcept\<close>.\<close>

definition is_equal :: "memory_resource \<Rightarrow> memory_resource \<Rightarrow> bool" where
  "is_equal self other = do_is_equal self other"

subsection \<open>The adaptor to \<open>std::pmr::memory_resource\<close>\<close>

text \<open>
  \<open>pmr_adaptor<_Pointer>::__is_host_accessible_resource\<close>: the pointee derives from
  \<open>memory_resource<host>\<close>, \<open>memory_resource<unified>\<close> or
  \<open>memory_resource<pinned>\<close>.
\<close>

definition is_host_accessible_resource :: "memory_kind \<Rightarrow> bool" where
  "is_host_accessible_resource k = (k = host \<or> k = unified \<or> k = pinned)"

text \<open>
  An object of a class derived from \<open>std::pmr::memory_resource\<close>. \<open>pmr_adaptor\<close> is the
  (final) class of the header that derives from \<open>detail::__pmr_adaptor_base\<close>; it stores
  \<open>__mr_\<close>, a pointer-like value to the wrapped resource. Every other polymorphic
  resource is \<open>Pmr_other\<close>. Both carry their own address.
\<close>

datatype pmr_memory_resource =
    Pmr_adaptor addr memory_resource
  | Pmr_other addr

text \<open>
  \<open>pmr_adaptor::resource()\<close> overrides
  \<open>virtual memory_resource<memory_kind::host>* resource() const noexcept = 0\<close> of the
  adaptor base with the return type \<open>raw_pointer\<close>, a pointer to the pointee's class.
  The override is well formed only with a covariant return type: the pointee's class
  has to be, or derive from, \<open>memory_resource<host>\<close>.
\<close>

definition resource_return_is_covariant :: "memory_kind \<Rightarrow> bool" where
  "resource_return_is_covariant k = (k = host)"

text \<open>The constructor \<open>pmr_adaptor(_Pointer __mr)\<close>. The class is well formed for a
  pointee that passes its \<open>static_assert\<close> and for which the override of \<open>resource()\<close>
  is covariant; for any other pointee the program does not compile (\<open>None\<close>).\<close>

definition pmr_adaptor :: "addr \<Rightarrow> memory_resource \<Rightarrow> pmr_memory_resource option" where
  "pmr_adaptor a mr =
     (if is_host_accessible_resource (kind mr) \<and> resource_return_is_covariant (kind mr)
      then Some (Pmr_adaptor a mr) else None)"

text \<open>\<open>dynamic_cast<detail::__pmr_adaptor_base const *>(&__other)\<close>: null unless the
  dynamic type of the object derives from the adaptor base.\<close>

fun dynamic_cast_pmr_adaptor_base :: "pmr_memory_resource \<Rightarrow> pmr_memory_resource option" where
  "dynamic_cast_pmr_adaptor_base (Pmr_adaptor a mr) = Some (Pmr_adaptor a mr)"
| "dynamic_cast_pmr_adaptor_base (Pmr_other a) = None"

text \<open>\<open>resource()\<close> of an adaptor: \<open>&*__mr_\<close>. It is only ever called through a
  non-null pointer to the adaptor base.\<close>

fun resource :: "pmr_memory_resource \<Rightarrow> memory_resource option" where
  "resource (Pmr_adaptor a mr) = Some mr"
| "resource (Pmr_other a) = None"

text \<open>
  \<open>pmr_adaptor::do_is_equal\<close>:
  \<^verbatim>\<open>auto __other_p = dynamic_cast<detail::__pmr_adaptor_base const *>(&__other);
return __other_p and (__other_p->resource() == resource() or
                      __other_p->resource()->is_equal(*resource()));\<close>
  The first argument is the adaptor's own \<open>__mr_\<close>.
\<close>

definition pmr_adaptor_do_is_equal :: "memory_resource \<Rightarrow> pmr_memory_resource \<Rightarrow> bool" where
  "pmr_adaptor_do_is_equal mr other =
     (case dynamic_cast_pmr_adaptor_base other of
        None \<Rightarrow> False
      | Some other_p \<Rightarrow>
          (case resource other_p of
             None \<Rightarrow> False
           | Some other_mr \<Rightarrow> address other_mr = address mr \<or> is_equal other_mr mr))"

text \<open>\<open>std::pmr::memory_resource::is_equal\<close> calls the virtual \<open>do_is_equal\<close>; for an
  object that is not an adaptor the overrider is not part of the header and nothing is
  said about it here (\<open>None\<close>).\<close>

fun pmr_is_equal :: "pmr_memory_resource \<Rightarrow> pmr_memory_resource \<Rightarrow> bool option" where
  "pmr_is_equal (Pmr_adaptor a mr) other = Some (pmr_adaptor_do_is_equal mr other)"
| "pmr_is_equal (Pmr_other a) other = None"

subsection \<open>Stream-ordered allocation\<close>

text \<open>
  Allocation acts on the state of the device runtime, of type \<open>'d\<close>, and may throw. An
  operation returns its result, or the exception, together with the new state.
\<close>

datatype cpp_exception = bad_alloc | cuda_error

type_synonym ('d, 'a) effect = "'d \<Rightarrow> (cpp_exception + 'a) \<times> 'd"

text \<open>
  \<open>cuda_stream_view\<close> is declared in \<open>rmm/cuda_stream_view.hpp\<close>, outside this header. A
  view is identified by a stream number, the value-initialised view \<open>stream_view{}\<close>
  being the default stream. Its member \<open>synchronize()\<close> is a parameter \<open>sync\<close> of the
  functions below.
\<close>

type_synonym stream_view = nat

definition default_stream_view :: stream_view where
  "default_stream_view = 0"

text \<open>\<open>default_alignment = alignof(std::max_align_t)\<close>, 16 on the 64-bit targets of
  the library.\<close>

definition default_alignment :: size_t where
  "default_alignment = 16"

text \<open>
  The two pure virtual functions of \<open>stream_ordered_memory_resource\<close>, as a concrete
  derived class defines them.
\<close>

record 'd stream_ordered_memory_resource =
  do_allocate_async :: "size_t \<Rightarrow> size_t \<Rightarrow> stream_view \<Rightarrow> ('d, pointer) effect"
  do_deallocate_async :: "pointer \<Rightarrow> size_t \<Rightarrow> size_t \<Rightarrow> stream_view \<Rightarrow> ('d, unit) effect"

text \<open>The public overloads \<open>allocate_async\<close> and \<open>deallocate_async\<close>, with and without
  an explicit alignment.\<close>

definition allocate_async ::
  "'d stream_ordered_memory_resource \<Rightarrow> size_t \<Rightarrow> size_t \<Rightarrow> stream_view \<Rightarrow> ('d, pointer) effect"
where
  "allocate_async r bytes alignment stream = do_allocate_async r bytes alignment stream"

definition allocate_async_default ::
  "'d stream_ordered_memory_resource \<Rightarrow> size_t \<Rightarrow> stream_view \<Rightarrow> ('d, pointer) effect"
where
  "allocate_async_default r bytes stream = do_allocate_async r bytes default_alignment stream"

definition deallocate_async ::
  "'d stream_ordered_memory_resource \<Rightarrow> pointer \<Rightarrow> size_t \<Rightarrow> size_t \<Rightarrow> stream_view
     \<Rightarrow> ('d, unit) effect"
where
  "deallocate_async r p bytes alignment stream = do_deallocate_async r p bytes alignment stream"

definition deallocate_async_default ::
  "'d stream_ordered_memory_resource \<Rightarrow> pointer \<Rightarrow> size_t \<Rightarrow> stream_view \<Rightarrow> ('d, unit) effect"
where
  "deallocate_async_default r p bytes stream =
     do_deallocate_async r p bytes default_alignment stream"

text \<open>
  \<open>stream_ordered_memory_resource::do_allocate\<close>, the overrider of
  \<open>memory_resource::do_allocate\<close>:
  \<^verbatim>\<open>auto const __default_stream = stream_view{};
auto __p = do_allocate_async(__bytes, __alignment, __default_stream);
__default_stream.synchronize();
return __p;\<close>
  An exception leaves the function at the call that throws it.
\<close>

definition do_allocate ::
  "(stream_view \<Rightarrow> ('d, unit) effect) \<Rightarrow> 'd stream_ordered_memory_resource
     \<Rightarrow> size_t \<Rightarrow> size_t \<Rightarrow> ('d, pointer) effect"
where
  "do_allocate sync r bytes alignment d =
     (let default_stream = default_stream_view in
      case do_allocate_async r bytes alignment default_stream d of
        (Inl e, d1) \<Rightarrow> (Inl e, d1)
      | (Inr p, d1) \<Rightarrow>
          (case sync default_stream d1 of
             (Inl e, d2) \<Rightarrow> (Inl e, d2)
           | (Inr u, d2) \<Rightarrow> (Inr p, d2)))"

text \<open>
  \<open>stream_ordered_memory_resource::do_deallocate\<close>:
  \<^verbatim>\<open>auto const __default_stream = stream_view{};
__default_stream.synchronize();
do_deallocate_async(__p, __bytes, __alignment, __default_stream);\<close>
\<close>

definition do_deallocate ::
  "(stream_view \<Rightarrow> ('d, unit) effect) \<Rightarrow> 'd stream_ordered_memory_resource
     \<Rightarrow> pointer \<Rightarrow> size_t \<Rightarrow> size_t \<Rightarrow> ('d, unit) effect"
where
  "do_deallocate sync r p bytes alignment d =
     (let default_stream = default_stream_view in
      case sync default_stream d of
        (Inl e, d1) \<Rightarrow> (Inl e, d1)
      | (Inr u, d1) \<Rightarrow> do_deallocate_async r p bytes alignment default_stream d1)"

text \<open>
  \<open>memory_resource::allocate\<close> and \<open>memory_resource::deallocate\<close> call the virtual
  \<open>do_allocate\<close> and \<open>do_deallocate\<close>; on an object of a class that derives from
  \<open>stream_ordered_memory_resource\<close> and defines the asynchronous pair only, the final
  overriders are the two functions above.
\<close>

definition allocate ::
  "(stream_view \<Rightarrow> ('d, unit) effect) \<Rightarrow> 'd stream_ordered_memory_resource
     \<Rightarrow> size_t \<Rightarrow> size_t \<Rightarrow> ('d, pointer) effect"
where
  "allocate sync r bytes alignment = do_allocate sync r bytes alignment"

definition deallocate ::
  "(stream_view \<Rightarrow> ('d, unit) effect) \<Rightarrow> 'd stream_ordered_memory_resource
     \<Rightarrow> pointer \<Rightarrow> size_t \<Rightarrow> size_t \<Rightarrow> ('d, unit) effect"
where
  "deallocate sync r p bytes alignment = do_deallocate sync r p bytes alignment"

text \<open>
  The specification's reading of the synchronous pair, written from its words: the
  asynchronous operation on the designated default stream, with an explicit
  synchronisation of that stream (after the allocation, before the deallocation).
\<close>

definition and_then :: "('d, 'a) effect \<Rightarrow> ('a \<Rightarrow> ('d, 'b) effect) \<Rightarrow> ('d, 'b) effect" where
  "and_then m f d = (case m d of (Inl e, d1) \<Rightarrow> (Inl e, d1) | (Inr x, d1) \<Rightarrow> f x d1)"

definition returning :: "'a \<Rightarrow> ('d, 'a) effect" where
  "returning x d = (Inr x, d)"

definition spec_synchronous_allocate ::
  "(stream_view \<Rightarrow> ('d, unit) effect) \<Rightarrow> 'd stream_ordered_memory_resource
     \<Rightarrow> size_t \<Rightarrow> size_t \<Rightarrow> ('d, pointer) effect"
where
  "spec_synchronous_allocate sync r bytes alignment =
     and_then (allocate_async r bytes alignment default_stream_view)
       (\<lambda>p. and_then (sync default_stream_view) (\<lambda>u. returning p))"

definition spec_synchronous_deallocate ::
  "(stream_view \<Rightarrow> ('d, unit) effect) \<Rightarrow> 'd stream_ordered_memory_resource
     \<Rightarrow> pointer \<Rightarrow> size_t \<Rightarrow> size_t \<Rightarrow> ('d, unit) effect"
where
  "spec_synchronous_deallocate sync r p bytes alignment =
     and_then (sync default_stream_view)
       (\<lambda>u. deallocate_async r p bytes alignment default_stream_view)"

subsection \<open>Which virtual functions a class leaves pure\<close>

datatype virtual_function =
    V_do_get_context | V_do_allocate | V_do_deallocate | V_do_is_equal
  | V_do_allocate_async | V_do_deallocate_async

text \<open>The \<open>_Context\<close> parameter: the tag \<open>any_context\<close>, or some other type.\<close>

datatype execution_context = any_context | other_context

text \<open>What one class of the hierarchy declares: the virtual functions it declares
  \<open>= 0\<close> and those it gives a body.\<close>

record class_decl =
  declares_pure :: "virtual_function set"
  has_body :: "virtual_function set"

text \<open>The pure virtual functions of a class, from those of its base: a body
  overrides an inherited pure function, a \<open>= 0\<close> declaration adds one.\<close>

definition pure_virtuals :: "virtual_function set \<Rightarrow> class_decl \<Rightarrow> virtual_function set" where
  "pure_virtuals inherited c = (inherited - has_body c) \<union> declares_pure c"

text \<open>\<open>detail::__get_context_impl<_Context>\<close> and its specialisation for
  \<open>any_context\<close>, which has no virtual function.\<close>

definition get_context_impl_class :: "execution_context \<Rightarrow> class_decl" where
  "get_context_impl_class c =
     (case c of
        any_context \<Rightarrow> \<lparr>declares_pure = {}, has_body = {}\<rparr>
      | other_context \<Rightarrow> \<lparr>declares_pure = {V_do_get_context}, has_body = {}\<rparr>)"

definition memory_resource_class :: class_decl where
  "memory_resource_class =
     \<lparr>declares_pure = {V_do_allocate, V_do_deallocate}, has_body = {V_do_is_equal}\<rparr>"

definition stream_ordered_memory_resource_class :: class_decl where
  "stream_ordered_memory_resource_class =
     \<lparr>declares_pure = {V_do_allocate_async, V_do_deallocate_async},
      has_body = {V_do_allocate, V_do_deallocate}\<rparr>"

text \<open>\<open>memory_resource<_Kind, _Context>\<close> derives from \<open>__get_context_impl<_Context>\<close>;
  \<open>stream_ordered_memory_resource<_Kind>\<close> from \<open>memory_resource<_Kind>\<close> with the default
  context.\<close>

definition memory_resource_pure_virtuals :: "execution_context \<Rightarrow> virtual_function set" where
  "memory_resource_pure_virtuals c =
     pure_virtuals (pure_virtuals {} (get_context_impl_class c)) memory_resource_class"

definition stream_ordered_pure_virtuals :: "virtual_function set" where
  "stream_ordered_pure_virtuals =
     pure_virtuals (memory_resource_pure_virtuals any_context)
       stream_ordered_memory_resource_class"

text \<open>A class derived from \<open>stream_ordered_memory_resource\<close> that defines the
  asynchronous pair and nothing else.\<close>

definition async_only_class :: class_decl where
  "async_only_class =
     \<lparr>declares_pure = {}, has_body = {V_do_allocate_async, V_do_deallocate_async}\<rparr>"

text \<open>A runtime that records what happens, and a resource over it that hands out
  consecutive pointers, for running the functions above.\<close>

datatype event =
    Allocated pointer size_t size_t stream_view
  | Deallocated pointer size_t size_t stream_view
  | Synchronized stream_view

definition recording_synchronize :: "stream_view \<Rightarrow> (event list, unit) effect" where
  "recording_synchronize s t = (Inr (), t @ [Synchronized s])"

definition recording_resource :: "event list stream_ordered_memory_resource" where
  "recording_resource =
     \<lparr>do_allocate_async = (\<lambda>bytes alignment s t.
         if bytes = 0 then (Inl bad_alloc, t)
         else (Inr (length t), t @ [Allocated (length t) bytes alignment s])),
      do_deallocate_async = (\<lambda>p bytes alignment s t.
         (Inr (), t @ [Deallocated p bytes alignment s]))\<rparr>"

section \<open>The binding layer (\<open>memory_resource.pyx\<close>)\<close>

subsection \<open>Objects, wrappers and the module state\<close>

text \<open>
  What the binding can raise. \<open>TypeError\<close> is raised by the constructor of the logging
  adaptor; \<open>AttributeError\<close> by an attribute lookup that finds nothing (\<open>.encode()\<close> on
  \<open>None\<close>, \<open>.flush()\<close> on an object without that method); \<open>Cpp_exception\<close> stands for
  an exception thrown by the constructor of a C++ wrapper. \<open>Undefined_access\<close> marks a
  read of the C field \<open>c_obj\<close> through \<open>None\<close> or through a reference to no object, and
  a call through a null or wrongly cast wrapper pointer: the generated code performs no
  check there and no result is defined.
\<close>

datatype exception = TypeError | AttributeError | Cpp_exception | Undefined_access

text \<open>The extension classes of the module, with their base \<open>MemoryResource\<close> (declared
  in the accompanying declaration file) and the type of \<open>None\<close>.\<close>

datatype py_class =
    NoneType
  | MemoryResource_class
  | CudaMemoryResource_class
  | ManagedMemoryResource_class
  | CNMemMemoryResource_class
  | CNMemManagedMemoryResource_class
  | PoolMemoryResource_class
  | FixedSizeMemoryResource_class
  | BinningMemoryResource_class
  | LoggingResourceAdaptor_class

text \<open>
  Modelled from the spec: the record a logging adaptor appends for each call (its
  definition is in the C++ wrapper headers, outside the sources at hand): the action,
  the pointer and the size.
\<close>

datatype log_action = Log_allocate | Log_deallocate | Log_allocate_failure

type_synonym log_record = "log_action \<times> pointer \<times> size_t"

text \<open>
  Modelled from the spec: the C++ wrapper classes, which are defined outside the
  sources at hand. A wrapper holds the arguments the binding passes to its constructor;
  an upstream argument is a copy of the upstream's \<open>c_obj\<close> (a shared pointer, \<open>None\<close>
  when null). A binning wrapper also holds its bin sizes, and a logging wrapper the
  records it has buffered and those it has written to its sink.
\<close>

datatype wrapper =
    cuda_memory_resource_wrapper
  | managed_memory_resource_wrapper
  | cnmem_memory_resource_wrapper size_t "int list"
  | cnmem_managed_memory_resource_wrapper size_t "int list"
  | pool_memory_resource_wrapper "addr option" size_t size_t
  | fixed_size_memory_resource_wrapper "addr option" size_t size_t
  | binning_memory_resource_wrapper "addr option" "size_t list"
  | logging_resource_adaptor_wrapper "addr option" string "log_record list" "log_record list"

text \<open>A \<open>MemoryResource\<close> object: its class and its one C field, the shared pointer
  \<open>c_obj\<close>.\<close>

record MemoryResource =
  cls :: py_class
  c_obj :: "addr option"

text \<open>
  The state the module acts on. Python objects and wrappers are kept in two stores,
  indexed by their identity; a new one is appended, so its identity is fresh.
  \<open>global_mr\<close> is the module variable \<open>_mr\<close> (\<open>None\<close>: Python's \<open>None\<close>, its value when
  the module is loaded). \<open>held\<close> lists the references the callers of the module hold.
  \<open>default_resource\<close> is the slot of the C++ library that \<open>set_default_resource\<close>
  writes, and \<open>environ\<close> the process environment. The constructors of the wrappers are
  C++ code outside the sources at hand: \<open>wrapper_ctor_raises\<close> tells for which wrappers
  the construction throws, and nothing changes it.
\<close>

record state =
  objs :: "MemoryResource list"
  wrappers :: "wrapper list"
  held :: "addr list"
  global_mr :: "addr option"
  default_resource :: "addr option"
  environ :: "string \<rightharpoonup> string"
  wrapper_ctor_raises :: "wrapper \<Rightarrow> bool"

type_synonym 'a py_result = "(exception + 'a) \<times> state"

definition lookup :: "'a list \<Rightarrow> nat \<Rightarrow> 'a option" where
  "lookup xs i = (if i < length xs then Some (xs ! i) else None)"

text \<open>The state when the module has just been loaded: \<open>cdef MemoryResource _mr\<close> has no
  initialiser, so \<open>_mr\<close> is \<open>None\<close>.\<close>

definition module_start :: "(string \<rightharpoonup> string) \<Rightarrow> (wrapper \<Rightarrow> bool) \<Rightarrow> state" where
  "module_start env raises =
     \<lparr>objs = [], wrappers = [], held = [], global_mr = None, default_resource = None,
      environ = env, wrapper_ctor_raises = raises\<rparr>"

text \<open>
  An object lives as long as something refers to it: a caller, or the module variable.
  (The objects of this module do not refer to each other; an adaptor keeps its
  upstream's wrapper, not the upstream object.)
\<close>

definition alive :: "state \<Rightarrow> addr \<Rightarrow> bool" where
  "alive s a = (a \<in> set (held s) \<or> global_mr s = Some a)"

subsection \<open>Constructors\<close>

definition new_wrapper :: "wrapper \<Rightarrow> state \<Rightarrow> addr \<times> state" where
  "new_wrapper w s = (length (wrappers s), s\<lparr>wrappers := wrappers s @ [w]\<rparr>)"

definition new_object :: "py_class \<Rightarrow> addr option \<Rightarrow> state \<Rightarrow> addr \<times> state" where
  "new_object c p s = (length (objs s), s\<lparr>objs := objs s @ [\<lparr>cls = c, c_obj = p\<rparr>]\<rparr>)"

text \<open>\<open>MemoryResource()\<close>: an object of the base class; nothing resets its \<open>c_obj\<close>, which
  stays null.\<close>

definition MemoryResource_new :: "state \<Rightarrow> addr py_result" where
  "MemoryResource_new s = (let (a, s1) = new_object MemoryResource_class None s in (Inr a, s1))"

text \<open>The classes whose \<open>__cinit__\<close> is \<open>self.c_obj.reset(new ..._wrapper(...))\<close>. When
  the wrapper's constructor throws, the object under construction is dropped and the
  state is as before.\<close>

definition construct :: "py_class \<Rightarrow> wrapper \<Rightarrow> state \<Rightarrow> addr py_result" where
  "construct c w s =
     (if wrapper_ctor_raises s w then (Inl Cpp_exception, s)
      else (let (p, s1) = new_wrapper w s; (a, s2) = new_object c (Some p) s1
            in (Inr a, s2)))"

definition CudaMemoryResource :: "state \<Rightarrow> addr py_result" where
  "CudaMemoryResource = construct CudaMemoryResource_class cuda_memory_resource_wrapper"

definition ManagedMemoryResource :: "state \<Rightarrow> addr py_result" where
  "ManagedMemoryResource =
     construct ManagedMemoryResource_class managed_memory_resource_wrapper"

definition CNMemMemoryResource :: "size_t \<Rightarrow> int list \<Rightarrow> state \<Rightarrow> addr py_result" where
  "CNMemMemoryResource initial_pool_size devices =
     construct CNMemMemoryResource_class
       (cnmem_memory_resource_wrapper initial_pool_size devices)"

definition CNMemManagedMemoryResource :: "size_t \<Rightarrow> int list \<Rightarrow> state \<Rightarrow> addr py_result" where
  "CNMemManagedMemoryResource initial_pool_size devices =
     construct CNMemManagedMemoryResource_class
       (cnmem_managed_memory_resource_wrapper initial_pool_size devices)"

text \<open>The classes over an upstream resource pass \<open>upstream.c_obj\<close> to the wrapper. The
  defaults of the size arguments are \<open>~0\<close> for the two pool sizes, \<open>1 << 20\<close> for the
  block size and \<open>128\<close> for the number of blocks.\<close>

definition with_upstream ::
  "addr \<Rightarrow> py_class \<Rightarrow> (addr option \<Rightarrow> wrapper) \<Rightarrow> state \<Rightarrow> addr py_result"
where
  "with_upstream upstream c mk s =
     (case lookup (objs s) upstream of
        None \<Rightarrow> (Inl Undefined_access, s)
      | Some up \<Rightarrow> construct c (mk (c_obj up)) s)"

definition PoolMemoryResource :: "addr \<Rightarrow> size_t \<Rightarrow> size_t \<Rightarrow> state \<Rightarrow> addr py_result" where
  "PoolMemoryResource upstream initial_pool_size maximum_pool_size =
     with_upstream upstream PoolMemoryResource_class
       (\<lambda>u. pool_memory_resource_wrapper u initial_pool_size maximum_pool_size)"

definition FixedSizeMemoryResource ::
  "addr \<Rightarrow> size_t \<Rightarrow> size_t \<Rightarrow> state \<Rightarrow> addr py_result"
where
  "FixedSizeMemoryResource upstream block_size blocks_to_preallocate =
     with_upstream upstream FixedSizeMemoryResource_class
       (\<lambda>u. fixed_size_memory_resource_wrapper u block_size blocks_to_preallocate)"

definition BinningMemoryResource :: "addr \<Rightarrow> state \<Rightarrow> addr py_result" where
  "BinningMemoryResource upstream_mr =
     with_upstream upstream_mr BinningMemoryResource_class
       (\<lambda>u. binning_memory_resource_wrapper u [])"

text \<open>\<open>os.getenv\<close>.\<close>

definition os_getenv :: "state \<Rightarrow> string \<Rightarrow> string option" where
  "os_getenv s name = environ s name"

text \<open>
  \<open>LoggingResourceAdaptor.__cinit__(self, MemoryResource upstream, object
  log_file_name=None)\<close>:
  \<^verbatim>\<open>if log_file_name is None:
    log_file_name = os.getenv("RMM_LOG_FILE")
    if not log_file_name:
        raise TypeError(...)
self.c_obj.reset(new logging_resource_adaptor_wrapper(upstream.c_obj, log_file_name))\<close>
  \<open>not log_file_name\<close> holds of \<open>None\<close> and of the empty string. When \<open>__cinit__\<close>
  raises, the object under construction is dropped and the state is as before.
\<close>

definition LoggingResourceAdaptor :: "addr \<Rightarrow> string option \<Rightarrow> state \<Rightarrow> addr py_result" where
  "LoggingResourceAdaptor upstream log_file_name s =
     (case (case log_file_name of
              None \<Rightarrow>
                (case os_getenv s ''RMM_LOG_FILE'' of
                   None \<Rightarrow> Inl TypeError
                 | Some f \<Rightarrow> if f = [] then Inl TypeError else Inr f)
            | Some f \<Rightarrow> Inr f) of
        Inl e \<Rightarrow> (Inl e, s)
      | Inr f \<Rightarrow>
          (case lookup (objs s) upstream of
             None \<Rightarrow> (Inl Undefined_access, s)
           | Some up \<Rightarrow>
               construct LoggingResourceAdaptor_class
                 (logging_resource_adaptor_wrapper (c_obj up) f [] []) s))"

text \<open>
  Modelled from the spec: \<open>logging_resource_adaptor_wrapper::flush\<close>, which is not in
  the sources at hand. \<open>flush()\<close> forces the buffered records to the sink. On a wrapper
  of another class the call, made through an unchecked cast, is undefined (\<open>None\<close>).
\<close>

fun wrapper_flush :: "wrapper \<Rightarrow> wrapper option" where
  "wrapper_flush (logging_resource_adaptor_wrapper up f buffered written) =
     Some (logging_resource_adaptor_wrapper up f [] (written @ buffered))"
| "wrapper_flush w = None"

text \<open>\<open>LoggingResourceAdaptor.flush(self)\<close>:
  \<^verbatim>\<open>(<logging_resource_adaptor_wrapper*>(self.c_obj.get()))[0].flush()\<close>\<close>

definition LoggingResourceAdaptor_flush :: "addr \<Rightarrow> state \<Rightarrow> unit py_result" where
  "LoggingResourceAdaptor_flush self s =
     (case lookup (objs s) self of
        None \<Rightarrow> (Inl Undefined_access, s)
      | Some ob \<Rightarrow>
          (case c_obj ob of
             None \<Rightarrow> (Inl Undefined_access, s)
           | Some p \<Rightarrow>
               (case lookup (wrappers s) p of
                  None \<Rightarrow> (Inl Undefined_access, s)
                | Some w \<Rightarrow>
                    (case wrapper_flush w of
                       None \<Rightarrow> (Inl Undefined_access, s)
                     | Some w' \<Rightarrow> (Inr (), s\<lparr>wrappers := (wrappers s)[p := w']\<rparr>)))))"

subsection \<open>The default-resource registry\<close>

text \<open>
  Modelled from the spec: the C++ function \<open>set_default_resource\<close> of the wrapper
  library, which is not in the sources at hand. It installs the allocator it is given
  as the process-wide current allocator and destroys nothing.
\<close>

definition set_default_resource :: "addr option \<Rightarrow> state \<Rightarrow> state" where
  "set_default_resource p s = s\<lparr>default_resource := p\<rparr>"

text \<open>\<open>_set_default_resource(MemoryResource mr)\<close>:
  \<^verbatim>\<open>global _mr
_mr = mr
set_default_resource(_mr.c_obj)\<close>
  An argument declared with an extension type also accepts \<open>None\<close>.\<close>

definition py_set_default_resource :: "addr option \<Rightarrow> state \<Rightarrow> unit py_result" where
  "py_set_default_resource mr s =
     (let s1 = s\<lparr>global_mr := mr\<rparr> in
      case global_mr s1 of
        None \<Rightarrow> (Inl Undefined_access, s1)
      | Some m \<Rightarrow>
          (case lookup (objs s1) m of
             None \<Rightarrow> (Inl Undefined_access, s1)
           | Some ob \<Rightarrow> (Inr (), set_default_resource (c_obj ob) s1)))"

text \<open>\<open>get_default_resource_type()\<close>: \<open>type(_mr)\<close>.\<close>

definition get_default_resource_type :: "state \<Rightarrow> py_class option" where
  "get_default_resource_type s =
     (case global_mr s of
        None \<Rightarrow> Some NoneType
      | Some m \<Rightarrow> map_option cls (lookup (objs s) m))"

text \<open>\<open>is_initialized()\<close>: \<open>_mr.c_obj.get() is not NULL\<close>.\<close>

definition is_initialized :: "state \<Rightarrow> exception + bool" where
  "is_initialized s =
     (case global_mr s of
        None \<Rightarrow> Inl Undefined_access
      | Some m \<Rightarrow>
          (case lookup (objs s) m of
             None \<Rightarrow> Inl Undefined_access
           | Some ob \<Rightarrow> Inr (c_obj ob \<noteq> None)))"

text \<open>
  \<open>_flush_logs()\<close>: \<open>_mr.flush()\<close>. \<open>flush\<close> is a method of \<open>LoggingResourceAdaptor\<close>
  only, so the call on an object of another class, or on \<open>None\<close>, raises
  \<open>AttributeError\<close>.
\<close>

definition py_flush_logs :: "state \<Rightarrow> unit py_result" where
  "py_flush_logs s =
     (case global_mr s of
        None \<Rightarrow> (Inl AttributeError, s)
      | Some m \<Rightarrow>
          (case lookup (objs s) m of
             None \<Rightarrow> (Inl Undefined_access, s)
           | Some ob \<Rightarrow>
               if cls ob = LoggingResourceAdaptor_class then LoggingResourceAdaptor_flush m s
               else (Inl AttributeError, s)))"

subsection \<open>Initialisation\<close>

text \<open>The argument \<open>devices\<close> of \<open>_initialize\<close>: \<open>None\<close>, an integer or a list.\<close>

datatype devices_arg = Devices_None | Devices_int int | Devices_list "int list"

text \<open>
  \<open>_initialize(pool_allocator, managed_memory, initial_pool_size, devices, logging,
  log_file_name)\<close>:
  \<^verbatim>\<open>global _mr
_mr = MemoryResource()
if not pool_allocator:
    typ = CudaMemoryResource or ManagedMemoryResource;  args = ()
else:
    typ = CNMemMemoryResource or CNMemManagedMemoryResource
    if initial_pool_size is None: initial_pool_size = 0
    if devices is None: devices = [0]
    elif isinstance(devices, int): devices = [devices]
    args = (initial_pool_size, devices)
if logging:
    mr = LoggingResourceAdaptor(typ(*args), log_file_name.encode())
else:
    mr = typ(*args)
_set_default_resource(mr)\<close>
  The arguments of the call of \<open>LoggingResourceAdaptor\<close> are evaluated from the left:
  first \<open>typ(*args)\<close>, then \<open>log_file_name.encode()\<close>, which raises on \<open>None\<close>.
\<close>

definition py_initialize ::
  "bool \<Rightarrow> bool \<Rightarrow> size_t option \<Rightarrow> devices_arg \<Rightarrow> bool \<Rightarrow> string option \<Rightarrow> state
     \<Rightarrow> unit py_result"
where
  "py_initialize pool_allocator managed_memory initial_pool_size devices logging
       log_file_name s =
     (case MemoryResource_new s of
        (Inl e, s0) \<Rightarrow> (Inl e, s0)
      | (Inr m, s0) \<Rightarrow>
          (let s1 = s0\<lparr>global_mr := Some m\<rparr>;
               typ_args =
                 (if \<not> pool_allocator then
                    (if \<not> managed_memory then CudaMemoryResource else ManagedMemoryResource)
                  else
                    (let ips = (case initial_pool_size of None \<Rightarrow> 0 | Some n \<Rightarrow> n);
                         devs = (case devices of
                                   Devices_None \<Rightarrow> [0]
                                 | Devices_int d \<Rightarrow> [d]
                                 | Devices_list ds \<Rightarrow> ds)
                     in if \<not> managed_memory then CNMemMemoryResource ips devs
                        else CNMemManagedMemoryResource ips devs))
           in case typ_args s1 of
                (Inl e, s2) \<Rightarrow> (Inl e, s2)
              | (Inr up, s2) \<Rightarrow>
                  if logging then
                    (case log_file_name of
                       None \<Rightarrow> (Inl AttributeError, s2)
                     | Some f \<Rightarrow>
                         (case LoggingResourceAdaptor up (Some f) s2 of
                            (Inl e, s3) \<Rightarrow> (Inl e, s3)
                          | (Inr mr, s3) \<Rightarrow> py_set_default_resource (Some mr) s3))
                  else py_set_default_resource (Some up) s2))"

text \<open>References are well formed when each names an object, or a wrapper, that
  exists.\<close>

definition wf_state :: "state \<Rightarrow> bool" where
  "wf_state s =
     ((case global_mr s of None \<Rightarrow> True | Some m \<Rightarrow> m < length (objs s))
      \<and> list_all (\<lambda>a. a < length (objs s)) (held s)
      \<and> list_all (\<lambda>ob. case c_obj ob of None \<Rightarrow> True | Some p \<Rightarrow> p < length (wrappers s))
           (objs s))"

text \<open>The wrapper of the installed default: \<open>_mr.c_obj\<close>, when \<open>_mr\<close> is an
  object.\<close>

definition default_c_obj :: "state \<Rightarrow> addr option" where
  "default_c_obj s =
     (case global_mr s of
        None \<Rightarrow> None
      | Some m \<Rightarrow> (case lookup (objs s) m of None \<Rightarrow> None | Some ob \<Rightarrow> c_obj ob))"

subsection \<open>Some states\<close>

text \<open>Wrapper constructors that never throw.\<close>

definition never_raises :: "wrapper \<Rightarrow> bool" where
  "never_raises w = False"


text \<open>
  A caller has created a \<open>CudaMemoryResource\<close> and a \<open>ManagedMemoryResource\<close> and holds
  both; nothing is installed.
\<close>

definition two_resources_state :: state where
  "two_resources_state =
     \<lparr>objs = [\<lparr>cls = CudaMemoryResource_class, c_obj = Some 0\<rparr>,
              \<lparr>cls = ManagedMemoryResource_class, c_obj = Some 1\<rparr>],
      wrappers = [cuda_memory_resource_wrapper, managed_memory_resource_wrapper],
      held = [0, 1], global_mr = None, default_resource = None, environ = Map.empty,
      wrapper_ctor_raises = never_raises\<rparr>"

text \<open>
  A logging adaptor over a \<open>CudaMemoryResource\<close> is installed, with one record in its
  buffer; a caller holds a second logging adaptor over the same upstream, with a record
  of its own.
\<close>

definition logging_state :: state where
  "logging_state =
     \<lparr>objs = [\<lparr>cls = MemoryResource_class, c_obj = None\<rparr>,
              \<lparr>cls = CudaMemoryResource_class, c_obj = Some 0\<rparr>,
              \<lparr>cls = LoggingResourceAdaptor_class, c_obj = Some 1\<rparr>,
              \<lparr>cls = LoggingResourceAdaptor_class, c_obj = Some 2\<rparr>],
      wrappers = [cuda_memory_resource_wrapper,
                  logging_resource_adaptor_wrapper (Some 0) ''rmm.log''
                    [(Log_allocate, 4096, 256)] [],
                  logging_resource_adaptor_wrapper (Some 0) ''other.log''
                    [(Log_allocate, 8192, 64)] []],
      held = [3], global_mr = Some 2, default_resource = Some 1, environ = Map.empty,
      wrapper_ctor_raises = never_raises\<rparr>"

text \<open>The states after a failed and after a successful \<open>_initialize\<close> in a fresh
  module.\<close>

definition failed_state :: state where
  "failed_state =
     snd (py_initialize False False None (Devices_int 0) True None
            (module_start Map.empty never_raises))"

definition installed_state :: state where
  "installed_state =
     snd (py_initialize False False None (Devices_int 0) False None
            (module_start Map.empty never_raises))"

text \<open>A module with a default installed, in which the construction of a pool wrapper
  throws.\<close>

definition no_pool_state :: state where
  "no_pool_state =
     installed_state\<lparr>wrapper_ctor_raises :=
       (\<lambda>w. case w of cnmem_memory_resource_wrapper n ds \<Rightarrow> True | _ \<Rightarrow> False)\<rparr>"

text \<open>
  A caller has installed the \<open>CudaMemoryResource\<close> without keeping a reference to it
  (as in \<open>_set_default_resource(CudaMemoryResource())\<close>), and holds the
  \<open>ManagedMemoryResource\<close>.
\<close>

definition temporary_default_state :: state where
  "temporary_default_state =
     snd (py_set_default_resource (Some 0) (two_resources_state\<lparr>held := [1]\<rparr>))"



section \<open>Properties of the allocator contract\<close>

text \<open>
  Claim C3. A memory resource whose class does not override \<open>do_is_equal\<close> compares
  equal to another resource exactly when the other resource is the very same object:
  the comparison is reflexive, and it is false between two resources at different
  addresses.
\<close>

theorem default_is_equal_identity:
  assumes "do_is_equal_override r = None"
  shows "(is_equal r other \<longleftrightarrow> address other = address r)
       \<and> is_equal r r
       \<and> (address other \<noteq> address r \<longrightarrow> \<not> is_equal r other)"
  using assms by (auto simp: is_equal_def do_is_equal_def)

theorem default_is_equal_identity_witness:
  "do_is_equal_override \<lparr>address = 1, kind = device, do_is_equal_override = None\<rparr> = None
   \<and> is_equal \<lparr>address = 1, kind = device, do_is_equal_override = None\<rparr>
               \<lparr>address = 1, kind = device, do_is_equal_override = None\<rparr>
   \<and> \<not> is_equal \<lparr>address = 1, kind = device, do_is_equal_override = None\<rparr>
                 \<lparr>address = 2, kind = device, do_is_equal_override = None\<rparr>"
  using default_is_equal_identity
          [of "\<lparr>address = 1, kind = device, do_is_equal_override = None\<rparr>"
              "\<lparr>address = 2, kind = device, do_is_equal_override = None\<rparr>"]
  by simp

text \<open>
  Claim C2. Two adaptors, constructed independently, whose wrapped resources are the
  same object or compare equal to each other under \<open>is_equal\<close>, compare equal to each
  other. The comparison \<open>a.is_equal(b)\<close> asks the resource wrapped by \<open>b\<close> whether it
  equals the one wrapped by \<open>a\<close>.
\<close>

theorem pmr_adaptors_over_equal_resources:
  "(address ma = address mb \<or> is_equal mb ma
      \<longrightarrow> pmr_is_equal (Pmr_adaptor a ma) (Pmr_adaptor b mb) = Some True)
   \<and> (address ma = address mb \<or> (is_equal ma mb \<and> is_equal mb ma)
      \<longrightarrow> pmr_is_equal (Pmr_adaptor a ma) (Pmr_adaptor b mb) = Some True
          \<and> pmr_is_equal (Pmr_adaptor b mb) (Pmr_adaptor a ma) = Some True)"
  by (auto simp: pmr_adaptor_do_is_equal_def)

theorem pmr_adaptors_over_equal_resources_witness:
  "is_equal \<lparr>address = 1, kind = host, do_is_equal_override = Some (\<lambda>x. x = 1 \<or> x = 2)\<rparr>
            \<lparr>address = 2, kind = host, do_is_equal_override = Some (\<lambda>x. x = 1 \<or> x = 2)\<rparr>
   \<and> is_equal \<lparr>address = 2, kind = host, do_is_equal_override = Some (\<lambda>x. x = 1 \<or> x = 2)\<rparr>
            \<lparr>address = 1, kind = host, do_is_equal_override = Some (\<lambda>x. x = 1 \<or> x = 2)\<rparr>
   \<and> address \<lparr>address = 1, kind = host, do_is_equal_override = Some (\<lambda>x. x = 1 \<or> x = 2)\<rparr>
       \<noteq> address \<lparr>address = 2, kind = host, do_is_equal_override = Some (\<lambda>x. x = 1 \<or> x = 2)\<rparr>
   \<and> pmr_is_equal
         (Pmr_adaptor 10 \<lparr>address = 1, kind = host, do_is_equal_override = Some (\<lambda>x. x = 1 \<or> x = 2)\<rparr>)
         (Pmr_adaptor 11 \<lparr>address = 2, kind = host, do_is_equal_override = Some (\<lambda>x. x = 1 \<or> x = 2)\<rparr>)
       = Some True
   \<and> pmr_is_equal
         (Pmr_adaptor 11 \<lparr>address = 2, kind = host, do_is_equal_override = Some (\<lambda>x. x = 1 \<or> x = 2)\<rparr>)
         (Pmr_adaptor 10 \<lparr>address = 1, kind = host, do_is_equal_override = Some (\<lambda>x. x = 1 \<or> x = 2)\<rparr>)
       = Some True"
proof -
  let ?ma = "\<lparr>address = 1, kind = host, do_is_equal_override = Some (\<lambda>x. x = 1 \<or> x = (2::nat))\<rparr>"
  let ?mb = "\<lparr>address = 2, kind = host, do_is_equal_override = Some (\<lambda>x. x = 1 \<or> x = (2::nat))\<rparr>"
  have eq: "is_equal ?ma ?mb" "is_equal ?mb ?ma"
    by (simp_all add: is_equal_def do_is_equal_def)
  have ne: "address ?ma \<noteq> address ?mb" by simp
  from pmr_adaptors_over_equal_resources [of ?ma ?mb 10 11] eq ne show ?thesis
    by blast
qed

text \<open>The direction matters for a resource whose own comparison is not symmetric: here
  the first resource accepts the second, the second does not accept the first, and the
  adaptor over the first is not equal to the adaptor over the second.\<close>

lemma pmr_is_equal_asks_the_other_resource:
  "is_equal \<lparr>address = 1, kind = host, do_is_equal_override = Some (\<lambda>x. True)\<rparr>
            \<lparr>address = 2, kind = host, do_is_equal_override = None\<rparr>
   \<and> pmr_is_equal
         (Pmr_adaptor 10 \<lparr>address = 1, kind = host, do_is_equal_override = Some (\<lambda>x. True)\<rparr>)
         (Pmr_adaptor 11 \<lparr>address = 2, kind = host, do_is_equal_override = None\<rparr>)
       = Some False"
  by (simp add: pmr_adaptor_do_is_equal_def is_equal_def do_is_equal_def)

text \<open>
  Claim C10. The comparison of an adaptor with another polymorphic resource is false
  whenever the other resource is not an adaptor; it is true exactly when the other
  resource is an adaptor and its wrapped resource is the same object as, or compares
  equal to, the one wrapped here.
\<close>

theorem pmr_adaptor_is_equal_cases:
  "(dynamic_cast_pmr_adaptor_base other = None
      \<longrightarrow> pmr_is_equal (Pmr_adaptor a mr) other = Some False)
   \<and> (pmr_is_equal (Pmr_adaptor a mr) other = Some True
      \<longleftrightarrow> (\<exists>b mr'. other = Pmr_adaptor b mr'
                    \<and> (address mr' = address mr \<or> is_equal mr' mr)))"
  by (cases other) (auto simp: pmr_adaptor_do_is_equal_def)

theorem pmr_adaptor_is_equal_cases_witness:
  "dynamic_cast_pmr_adaptor_base (Pmr_other 5) = None
   \<and> pmr_is_equal (Pmr_adaptor 10 \<lparr>address = 5, kind = host, do_is_equal_override = None\<rparr>)
        (Pmr_other 5) = Some False
   \<and> pmr_is_equal (Pmr_adaptor 10 \<lparr>address = 5, kind = host, do_is_equal_override = None\<rparr>)
        (Pmr_other 5) \<noteq> Some True"
  using pmr_adaptor_is_equal_cases
          [of "Pmr_other 5" 10 "\<lparr>address = 5, kind = host, do_is_equal_override = None\<rparr>"]
  by simp

text \<open>
  Claim C1. On a stream-ordered resource the synchronous \<open>allocate\<close> is the asynchronous
  allocation on the default stream followed by a synchronisation of that stream, and
  the synchronous \<open>deallocate\<close> is a synchronisation of the default stream followed by
  the asynchronous deallocation on it. The class leaves exactly the asynchronous pair
  pure virtual, so a class that defines that pair alone is concrete.
\<close>

theorem synchronous_pair_via_async:
  "allocate sync r bytes alignment = spec_synchronous_allocate sync r bytes alignment
   \<and> deallocate sync r p bytes alignment = spec_synchronous_deallocate sync r p bytes alignment
   \<and> stream_ordered_pure_virtuals = {V_do_allocate_async, V_do_deallocate_async}
   \<and> pure_virtuals stream_ordered_pure_virtuals async_only_class = {}"
proof (intro conjI)
  show "allocate sync r bytes alignment = spec_synchronous_allocate sync r bytes alignment"
    by (rule ext)
       (simp add: allocate_def do_allocate_def spec_synchronous_allocate_def and_then_def
          returning_def allocate_async_def split: prod.splits sum.splits)
  show "deallocate sync r p bytes alignment
          = spec_synchronous_deallocate sync r p bytes alignment"
    by (rule ext)
       (simp add: deallocate_def do_deallocate_def spec_synchronous_deallocate_def
          and_then_def deallocate_async_def split: prod.splits sum.splits)
  show pv: "stream_ordered_pure_virtuals = {V_do_allocate_async, V_do_deallocate_async}"
    by (auto simp: stream_ordered_pure_virtuals_def memory_resource_pure_virtuals_def
          pure_virtuals_def get_context_impl_class_def memory_resource_class_def
          stream_ordered_memory_resource_class_def)
  show "pure_virtuals stream_ordered_pure_virtuals async_only_class = {}"
    by (simp add: pv pure_virtuals_def async_only_class_def)
qed

lemma recording_allocate_run:
  "allocate recording_synchronize recording_resource 8 16 []
     = (Inr 0, [Allocated 0 8 16 0, Synchronized 0])"
  by (simp add: allocate_def do_allocate_def recording_resource_def
        recording_synchronize_def default_stream_view_def)

lemma recording_allocate_failure_run:
  "allocate recording_synchronize recording_resource 0 16 [] = (Inl bad_alloc, [])"
  by (simp add: allocate_def do_allocate_def recording_resource_def
        recording_synchronize_def default_stream_view_def)

lemma recording_deallocate_run:
  "deallocate recording_synchronize recording_resource 0 8 16
       [Allocated 0 8 16 0, Synchronized 0]
     = (Inr (), [Allocated 0 8 16 0, Synchronized 0, Synchronized 0, Deallocated 0 8 16 0])"
  by (simp add: deallocate_def do_deallocate_def recording_resource_def
        recording_synchronize_def default_stream_view_def)



text \<open>Over a resource of kind \<open>unified\<close> or \<open>pinned\<close> the adaptor does not compile,
  although the \<open>static_assert\<close> holds.\<close>

lemma pmr_adaptor_over_unified_or_pinned:
  "is_host_accessible_resource unified \<and> is_host_accessible_resource pinned
   \<and> pmr_adaptor a \<lparr>address = b, kind = unified, do_is_equal_override = ov\<rparr> = None
   \<and> pmr_adaptor a \<lparr>address = b, kind = pinned, do_is_equal_override = ov\<rparr> = None"
  by (simp add: pmr_adaptor_def is_host_accessible_resource_def
        resource_return_is_covariant_def)

section \<open>Properties of the binding layer\<close>

subsection \<open>Stores and constructors\<close>

lemma lookup_append_new [simp]: "lookup (xs @ [x]) (length xs) = Some x"
  by (simp add: lookup_def)

lemma lookup_Some_less: "lookup xs i = Some x \<Longrightarrow> i < length xs"
  by (simp add: lookup_def split: if_splits)

lemma lookup_update:
  "lookup (xs[p := w]) q = (if q = p \<and> p < length xs then Some w else lookup xs q)"
  by (simp add: lookup_def)

lemma construct_eq:
  "construct c w s =
     (if wrapper_ctor_raises s w then (Inl Cpp_exception, s)
      else (Inr (length (objs s)),
            s\<lparr>wrappers := wrappers s @ [w],
              objs := objs s @ [\<lparr>cls = c, c_obj = Some (length (wrappers s))\<rparr>]\<rparr>))"
  by (simp add: construct_def new_wrapper_def new_object_def)

lemma set_default_eq:
  "lookup (objs s) x = Some ox \<Longrightarrow>
   py_set_default_resource (Some x) s =
     (Inr (), s\<lparr>global_mr := Some x, default_resource := c_obj ox\<rparr>)"
  by (simp add: py_set_default_resource_def set_default_resource_def)


lemmas run_simps =
  py_initialize_def MemoryResource_new_def new_object_def new_wrapper_def construct_def
  CudaMemoryResource_def ManagedMemoryResource_def CNMemMemoryResource_def
  CNMemManagedMemoryResource_def
  py_set_default_resource_def set_default_resource_def lookup_def module_start_def
  LoggingResourceAdaptor_def os_getenv_def never_raises_def

subsection \<open>Runs of \<open>_initialize\<close>\<close>

text \<open>
  Every run of \<open>_initialize\<close> first installs an empty \<open>MemoryResource\<close>, then constructs
  the upstream resource and goes on from there.
\<close>

lemma typ_args_construct:
  "\<exists>c w.
     (if \<not> pa then (if \<not> mm then CudaMemoryResource else ManagedMemoryResource)
      else (let ips' = (case ips of None \<Rightarrow> 0 | Some n \<Rightarrow> n);
                devs = (case dv of Devices_None \<Rightarrow> [0] | Devices_int d \<Rightarrow> [d]
                        | Devices_list ds \<Rightarrow> ds)
            in if \<not> mm then CNMemMemoryResource ips' devs
               else CNMemManagedMemoryResource ips' devs)) = construct c w"
  unfolding CudaMemoryResource_def ManagedMemoryResource_def CNMemMemoryResource_def
    CNMemManagedMemoryResource_def Let_def
  by (cases pa; cases mm) auto

lemma py_initialize_unfold:
  "\<exists>c w. py_initialize pa mm ips dv lg lf s =
     (case construct c w
             (s\<lparr>objs := objs s @ [\<lparr>cls = MemoryResource_class, c_obj = None\<rparr>],
                global_mr := Some (length (objs s))\<rparr>) of
        (Inl e, s2) \<Rightarrow> (Inl e, s2)
      | (Inr up, s2) \<Rightarrow>
          if lg then
            (case lf of
               None \<Rightarrow> (Inl AttributeError, s2)
             | Some f \<Rightarrow>
                 (case LoggingResourceAdaptor up (Some f) s2 of
                    (Inl e, s3) \<Rightarrow> (Inl e, s3)
                  | (Inr mr, s3) \<Rightarrow> py_set_default_resource (Some mr) s3))
          else py_set_default_resource (Some up) s2)"
proof -
  from typ_args_construct [of pa mm ips dv] obtain c w where
    "(if \<not> pa then (if \<not> mm then CudaMemoryResource else ManagedMemoryResource)
      else (let ips' = (case ips of None \<Rightarrow> 0 | Some n \<Rightarrow> n);
                devs = (case dv of Devices_None \<Rightarrow> [0] | Devices_int d \<Rightarrow> [d]
                        | Devices_list ds \<Rightarrow> ds)
            in if \<not> mm then CNMemMemoryResource ips' devs
               else CNMemManagedMemoryResource ips' devs)) = construct c w"
    by blast
  then have "py_initialize pa mm ips dv lg lf s =
     (case construct c w
             (s\<lparr>objs := objs s @ [\<lparr>cls = MemoryResource_class, c_obj = None\<rparr>],
                global_mr := Some (length (objs s))\<rparr>) of
        (Inl e, s2) \<Rightarrow> (Inl e, s2)
      | (Inr up, s2) \<Rightarrow>
          if lg then
            (case lf of
               None \<Rightarrow> (Inl AttributeError, s2)
             | Some f \<Rightarrow>
                 (case LoggingResourceAdaptor up (Some f) s2 of
                    (Inl e, s3) \<Rightarrow> (Inl e, s3)
                  | (Inr mr, s3) \<Rightarrow> py_set_default_resource (Some mr) s3))
          else py_set_default_resource (Some up) s2)"
    by (simp add: py_initialize_def MemoryResource_new_def new_object_def Let_def)
  then show ?thesis by blast
qed

text \<open>Rules to run one step on an explicit state.\<close>

lemmas step_simps =
  construct_eq LoggingResourceAdaptor_def py_set_default_resource_def
  set_default_resource_def lookup_def nth_append

lemma py_initialize_failure:
  assumes "py_initialize pa mm ips dv lg lf s = (Inl e, s')"
  shows "global_mr s' = Some (length (objs s))
       \<and> lookup (objs s') (length (objs s)) = Some \<lparr>cls = MemoryResource_class, c_obj = None\<rparr>
       \<and> default_resource s' = default_resource s \<and> held s' = held s
       \<and> (e = AttributeError \<or> e = Cpp_exception)"
proof -
  from py_initialize_unfold [of pa mm ips dv lg lf s] obtain c w where
    "py_initialize pa mm ips dv lg lf s =
     (case construct c w
             (s\<lparr>objs := objs s @ [\<lparr>cls = MemoryResource_class, c_obj = None\<rparr>],
                global_mr := Some (length (objs s))\<rparr>) of
        (Inl e, s2) \<Rightarrow> (Inl e, s2)
      | (Inr up, s2) \<Rightarrow>
          if lg then
            (case lf of
               None \<Rightarrow> (Inl AttributeError, s2)
             | Some f \<Rightarrow>
                 (case LoggingResourceAdaptor up (Some f) s2 of
                    (Inl e, s3) \<Rightarrow> (Inl e, s3)
                  | (Inr mr, s3) \<Rightarrow> py_set_default_resource (Some mr) s3))
          else py_set_default_resource (Some up) s2)"
    by blast
  with assms show ?thesis
    by (auto simp: step_simps split: if_splits option.splits)
qed

lemma py_initialize_success:
  assumes "py_initialize pa mm ips dv lg lf s = (Inr u, s')"
  shows "is_initialized s' = Inr True"
proof -
  from py_initialize_unfold [of pa mm ips dv lg lf s] obtain c w where
    "py_initialize pa mm ips dv lg lf s =
     (case construct c w
             (s\<lparr>objs := objs s @ [\<lparr>cls = MemoryResource_class, c_obj = None\<rparr>],
                global_mr := Some (length (objs s))\<rparr>) of
        (Inl e, s2) \<Rightarrow> (Inl e, s2)
      | (Inr up, s2) \<Rightarrow>
          if lg then
            (case lf of
               None \<Rightarrow> (Inl AttributeError, s2)
             | Some f \<Rightarrow>
                 (case LoggingResourceAdaptor up (Some f) s2 of
                    (Inl e, s3) \<Rightarrow> (Inl e, s3)
                  | (Inr mr, s3) \<Rightarrow> py_set_default_resource (Some mr) s3))
          else py_set_default_resource (Some up) s2)"
    by blast
  with assms show ?thesis
    by (auto simp: step_simps is_initialized_def split: if_splits option.splits)
qed

lemma py_initialize_logging_without_name:
  "fst (py_initialize pa mm ips dv True None s) = Inl AttributeError
   \<or> fst (py_initialize pa mm ips dv True None s) = Inl Cpp_exception"
proof -
  from py_initialize_unfold [of pa mm ips dv True None s] obtain c w where
    "py_initialize pa mm ips dv True None s =
     (case construct c w
             (s\<lparr>objs := objs s @ [\<lparr>cls = MemoryResource_class, c_obj = None\<rparr>],
                global_mr := Some (length (objs s))\<rparr>) of
        (Inl e, s2) \<Rightarrow> (Inl e, s2)
      | (Inr up, s2) \<Rightarrow>
          if True then
            (case None of
               None \<Rightarrow> (Inl AttributeError, s2)
             | Some f \<Rightarrow>
                 (case LoggingResourceAdaptor up (Some f) s2 of
                    (Inl e, s3) \<Rightarrow> (Inl e, s3)
                  | (Inr mr, s3) \<Rightarrow> py_set_default_resource (Some mr) s3))
          else py_set_default_resource (Some up) s2)"
    by blast
  then show ?thesis
    by (auto simp: construct_eq)
qed

subsection \<open>Well-formed states\<close>

text \<open>The module starts in a well-formed state and keeps its references well
  formed.\<close>

lemma wf_state_module_start: "wf_state (module_start env raises)"
  by (simp add: wf_state_def module_start_def)

lemma wf_state_set_default:
  assumes "wf_state s" and "lookup (objs s) x = Some ox"
  shows "wf_state (snd (py_set_default_resource (Some x) s))"
  using assms
  by (auto simp: set_default_eq wf_state_def list_all_iff dest: lookup_Some_less
        split: option.splits)

lemma wf_state_construct:
  assumes "wf_state s"
  shows "wf_state (snd (construct c w s))"
  using assms
  by (auto simp: construct_eq wf_state_def list_all_iff split: option.splits)

lemma wf_state_py_initialize:
  assumes "wf_state s"
  shows "wf_state (snd (py_initialize pa mm ips dv lg lf s))"
proof -
  from py_initialize_unfold [of pa mm ips dv lg lf s] obtain c w where
    "py_initialize pa mm ips dv lg lf s =
     (case construct c w
             (s\<lparr>objs := objs s @ [\<lparr>cls = MemoryResource_class, c_obj = None\<rparr>],
                global_mr := Some (length (objs s))\<rparr>) of
        (Inl e, s2) \<Rightarrow> (Inl e, s2)
      | (Inr up, s2) \<Rightarrow>
          if lg then
            (case lf of
               None \<Rightarrow> (Inl AttributeError, s2)
             | Some f \<Rightarrow>
                 (case LoggingResourceAdaptor up (Some f) s2 of
                    (Inl e, s3) \<Rightarrow> (Inl e, s3)
                  | (Inr mr, s3) \<Rightarrow> py_set_default_resource (Some mr) s3))
          else py_set_default_resource (Some up) s2)"
    by blast
  with assms show ?thesis
    by (auto simp: step_simps wf_state_def list_all_iff split: option.splits)
qed

subsection \<open>The default-resource registry\<close>

text \<open>
  Claim C4, as the module has it. After \<open>_set_default_resource(X)\<close> and then
  \<open>_set_default_resource(Y)\<close> the module's current resource is \<open>Y\<close>, the getter reports
  the type of \<open>Y\<close> and the C++ slot holds the wrapper of \<open>Y\<close>. The replacement alters no
  object and no wrapper, and it takes away the module's own reference to \<open>X\<close>: from
  then on \<open>X\<close> is alive exactly when a caller holds a reference to it. An \<open>X\<close> that a
  caller still holds is alive and is as it was, with its wrapper.
\<close>

theorem set_default_twice:
  assumes "lookup (objs s) x = Some ox" and "lookup (objs s) y = Some oy"
    and "py_set_default_resource (Some x) s = (r1, s1)"
    and "py_set_default_resource (Some y) s1 = (r2, s2)"
  shows "r1 = Inr () \<and> global_mr s1 = Some x \<and> alive s1 x
       \<and> r2 = Inr () \<and> global_mr s2 = Some y
       \<and> get_default_resource_type s2 = Some (cls oy)
       \<and> default_resource s2 = c_obj oy
       \<and> (alive s2 x \<longleftrightarrow> x \<in> set (held s) \<or> x = y)
       \<and> (x \<in> set (held s) \<longrightarrow> alive s2 x \<and> lookup (objs s2) x = Some ox)
       \<and> objs s2 = objs s \<and> wrappers s2 = wrappers s \<and> held s2 = held s"
proof -
  from assms(1,3) have s1: "r1 = Inr ()" "s1 = s\<lparr>global_mr := Some x, default_resource := c_obj ox\<rparr>"
    by (simp_all add: set_default_eq)
  from s1 assms(2) have "lookup (objs s1) y = Some oy" by simp
  with assms(4) have s2: "r2 = Inr ()" "s2 = s1\<lparr>global_mr := Some y, default_resource := c_obj oy\<rparr>"
    by (simp_all add: set_default_eq)
  from s1 s2 assms(1,2) show ?thesis
    by (auto simp: get_default_resource_type_def alive_def)
qed

theorem set_default_twice_witness:
  "lookup (objs two_resources_state) 0 = Some \<lparr>cls = CudaMemoryResource_class, c_obj = Some 0\<rparr>
   \<and> 0 \<in> set (held two_resources_state)
   \<and> global_mr (snd (py_set_default_resource (Some 1)
         (snd (py_set_default_resource (Some 0) two_resources_state)))) = Some 1
   \<and> get_default_resource_type (snd (py_set_default_resource (Some 1)
         (snd (py_set_default_resource (Some 0) two_resources_state))))
       = Some ManagedMemoryResource_class
   \<and> alive (snd (py_set_default_resource (Some 1)
         (snd (py_set_default_resource (Some 0) two_resources_state)))) 0
   \<and> lookup (objs (snd (py_set_default_resource (Some 1)
         (snd (py_set_default_resource (Some 0) two_resources_state))))) 0
       = Some \<lparr>cls = CudaMemoryResource_class, c_obj = Some 0\<rparr>"
proof -
  have a: "lookup (objs two_resources_state) 0
             = Some \<lparr>cls = CudaMemoryResource_class, c_obj = Some 0\<rparr>"
    by (simp add: two_resources_state_def lookup_def)
  have b: "lookup (objs two_resources_state) 1
             = Some \<lparr>cls = ManagedMemoryResource_class, c_obj = Some 1\<rparr>"
    by (simp add: two_resources_state_def lookup_def)
  have c: "0 \<in> set (held two_resources_state)"
    by (simp add: two_resources_state_def)
  from set_default_twice [OF a b prod.collapse [symmetric] prod.collapse [symmetric]] a c
  show ?thesis by simp
qed

text \<open>
  The claim as stated holds of every \<open>X\<close>. Here \<open>X\<close> was installed by a caller that
  kept no reference to it: it is the current resource and alive; once \<open>Y\<close> replaces it
  nothing refers to it any more.
\<close>

theorem replaced_default_without_holder_counterexample:
  "global_mr temporary_default_state = Some 0
   \<and> alive temporary_default_state 0
   \<and> fst (py_set_default_resource (Some 1) temporary_default_state) = Inr ()
   \<and> global_mr (snd (py_set_default_resource (Some 1) temporary_default_state)) = Some 1
   \<and> \<not> alive (snd (py_set_default_resource (Some 1) temporary_default_state)) 0"
  by (simp add: temporary_default_state_def two_resources_state_def
        py_set_default_resource_def set_default_resource_def lookup_def alive_def)

text \<open>In general: what keeps a replaced resource alive is a caller's reference.\<close>

lemma replaced_resource_without_holder:
  assumes "lookup (objs s) y = Some oy" and "x \<notin> set (held s)" and "x \<noteq> y"
  shows "\<not> alive (snd (py_set_default_resource (Some y) s)) x"
  using assms by (simp add: set_default_eq alive_def)

text \<open>Installing \<open>None\<close> rebinds \<open>_mr\<close> and then reads a field of no object.\<close>

lemma set_default_none:
  "py_set_default_resource None s = (Inl Undefined_access, s\<lparr>global_mr := None\<rparr>)"
  by (simp add: py_set_default_resource_def)

text \<open>
  \<open>is_initialized()\<close> where \<open>_mr\<close> is an object: it is false while the module's
  resource is an empty \<open>MemoryResource\<close>, whose \<open>c_obj\<close> is null; it is true after an
  allocator that owns a wrapper has been installed by \<open>_set_default_resource\<close>, and
  after a run of \<open>_initialize\<close> that returns.
\<close>

lemma is_initialized_after_install:
  "(global_mr s = Some m \<and> lookup (objs s) m = Some ob \<and> c_obj ob = None
      \<longrightarrow> is_initialized s = Inr False)
   \<and> (lookup (objs s) x = Some ox \<and> c_obj ox \<noteq> None
      \<longrightarrow> fst (py_set_default_resource (Some x) s) = Inr ()
          \<and> is_initialized (snd (py_set_default_resource (Some x) s)) = Inr True)
   \<and> (py_initialize pa mm ips dv lg lf s = (Inr (), s') \<longrightarrow> is_initialized s' = Inr True)"
proof (intro conjI impI)
  assume "global_mr s = Some m \<and> lookup (objs s) m = Some ob \<and> c_obj ob = None"
  then show "is_initialized s = Inr False"
    by (simp add: is_initialized_def)
next
  assume a: "lookup (objs s) x = Some ox \<and> c_obj ox \<noteq> None"
  then show "fst (py_set_default_resource (Some x) s) = Inr ()"
    by (simp add: set_default_eq)
  from a show "is_initialized (snd (py_set_default_resource (Some x) s)) = Inr True"
    by (auto simp: set_default_eq is_initialized_def)
next
  assume "py_initialize pa mm ips dv lg lf s = (Inr (), s')"
  then show "is_initialized s' = Inr True"
    by (rule py_initialize_success)
qed


lemma is_initialized_after_install_run:
  "global_mr failed_state = Some 0
   \<and> lookup (objs failed_state) 0 = Some \<lparr>cls = MemoryResource_class, c_obj = None\<rparr>
   \<and> is_initialized failed_state = Inr False
   \<and> lookup (objs failed_state) 1 = Some \<lparr>cls = CudaMemoryResource_class, c_obj = Some 0\<rparr>
   \<and> is_initialized (snd (py_set_default_resource (Some 1) failed_state)) = Inr True
   \<and> fst (py_initialize True False (Some 1024) Devices_None False None failed_state) = Inr ()
   \<and> is_initialized
        (snd (py_initialize True False (Some 1024) Devices_None False None failed_state))
       = Inr True"
proof -
  have fs: "failed_state =
     \<lparr>objs = [\<lparr>cls = MemoryResource_class, c_obj = None\<rparr>,
              \<lparr>cls = CudaMemoryResource_class, c_obj = Some 0\<rparr>],
      wrappers = [cuda_memory_resource_wrapper],
      held = [], global_mr = Some 0, default_resource = None, environ = Map.empty,
      wrapper_ctor_raises = never_raises\<rparr>"
    by (simp add: failed_state_def run_simps)
  have g: "global_mr failed_state = Some 0"
    and o: "lookup (objs failed_state) 0 = Some \<lparr>cls = MemoryResource_class, c_obj = None\<rparr>"
    and x: "lookup (objs failed_state) 1
              = Some \<lparr>cls = CudaMemoryResource_class, c_obj = Some 0\<rparr>"
    by (simp_all add: fs lookup_def)
  have r: "fst (py_initialize True False (Some 1024) Devices_None False None failed_state)
             = Inr ()"
    by (simp add: fs run_simps)
  then have p: "py_initialize True False (Some 1024) Devices_None False None failed_state
       = (Inr (), snd (py_initialize True False (Some 1024) Devices_None False None failed_state))"
    by (metis prod.collapse)
  from is_initialized_after_install
         [of failed_state 0 "\<lparr>cls = MemoryResource_class, c_obj = None\<rparr>"
             1 "\<lparr>cls = CudaMemoryResource_class, c_obj = Some 0\<rparr>"
             True False "Some 1024" Devices_None False None
             "snd (py_initialize True False (Some 1024) Devices_None False None failed_state)"]
       g o x r p
  show ?thesis by simp
qed

text \<open>
  Claim C7. When the module has just been loaded, and nothing has been installed,
  \<open>_mr\<close> is \<open>None\<close>: \<open>cdef MemoryResource _mr\<close> has no initialiser. \<open>is_initialized()\<close>
  then reads the field \<open>c_obj\<close> through \<open>None\<close>, without a check; the source does not
  determine what that read yields, and so does not make the answer false.
\<close>

lemma is_initialized_at_module_start:
  "global_mr (module_start Map.empty never_raises) = None
   \<and> get_default_resource_type (module_start Map.empty never_raises) = Some NoneType
   \<and> is_initialized (module_start Map.empty never_raises) = Inl Undefined_access"
  by (simp add: is_initialized_def get_default_resource_type_def module_start_def)

text \<open>
  Claim C9. \<open>_initialize\<close> is not atomic on failure. Whenever it raises, the module's
  resource is the fresh, empty \<open>MemoryResource\<close> it created first: not the resource that
  was installed before, and \<open>is_initialized()\<close> answers false; the C++ slot still holds
  what it held. The call with \<open>logging=True\<close> and no \<open>log_file_name\<close> always raises.
\<close>

theorem initialize_failure_not_atomic:
  assumes "wf_state s" and "py_initialize pa mm ips dv lg lf s = (Inl e, s')"
  shows "global_mr s' = Some (length (objs s))
       \<and> lookup (objs s) (length (objs s)) = None
       \<and> lookup (objs s') (length (objs s)) = Some \<lparr>cls = MemoryResource_class, c_obj = None\<rparr>
       \<and> global_mr s' \<noteq> global_mr s
       \<and> is_initialized s' = Inr False
       \<and> default_resource s' = default_resource s
       \<and> (fst (py_initialize pa' mm' ips' dv' True None s) = Inl AttributeError
          \<or> fst (py_initialize pa' mm' ips' dv' True None s) = Inl Cpp_exception)"
proof -
  note f = py_initialize_failure [OF assms(2)]
  from assms(1) have "global_mr s \<noteq> Some (length (objs s))"
    by (auto simp: wf_state_def)
  moreover from f have "is_initialized s' = Inr False"
    by (simp add: is_initialized_def)
  ultimately show ?thesis
    using f py_initialize_logging_without_name [of pa' mm' ips' dv' s]
    by (simp add: lookup_def)
qed

theorem initialize_failure_not_atomic_witness:
  "wf_state installed_state
   \<and> global_mr installed_state = Some 1
   \<and> is_initialized installed_state = Inr True
   \<and> fst (py_initialize True True None Devices_None True None installed_state)
       = Inl AttributeError
   \<and> global_mr (snd (py_initialize True True None Devices_None True None installed_state))
       = Some 2
   \<and> is_initialized (snd (py_initialize True True None Devices_None True None installed_state))
       = Inr False
   \<and> default_resource (snd (py_initialize True True None Devices_None True None installed_state))
       = Some 0
   \<and> wf_state no_pool_state
   \<and> is_initialized no_pool_state = Inr True
   \<and> fst (py_initialize True False None (Devices_int 0) False None no_pool_state)
       = Inl Cpp_exception
   \<and> is_initialized
        (snd (py_initialize True False None (Devices_int 0) False None no_pool_state))
       = Inr False"
proof -
  have st: "installed_state =
     \<lparr>objs = [\<lparr>cls = MemoryResource_class, c_obj = None\<rparr>,
              \<lparr>cls = CudaMemoryResource_class, c_obj = Some 0\<rparr>],
      wrappers = [cuda_memory_resource_wrapper],
      held = [], global_mr = Some 1, default_resource = Some 0, environ = Map.empty,
      wrapper_ctor_raises = never_raises\<rparr>"
    by (simp add: installed_state_def run_simps)
  have w: "wf_state installed_state"
    by (simp add: st wf_state_def)
  have i: "is_initialized installed_state = Inr True"
    by (simp add: st is_initialized_def lookup_def)
  have f: "fst (py_initialize True True None Devices_None True None installed_state)
             = Inl AttributeError"
    by (simp add: st run_simps)
  then have p: "py_initialize True True None Devices_None True None installed_state
       = (Inl AttributeError,
          snd (py_initialize True True None Devices_None True None installed_state))"
    by (metis prod.collapse)
  have w': "wf_state no_pool_state"
    by (simp add: no_pool_state_def st wf_state_def)
  have i': "is_initialized no_pool_state = Inr True"
    by (simp add: no_pool_state_def st is_initialized_def lookup_def)
  have f': "fst (py_initialize True False None (Devices_int 0) False None no_pool_state)
             = Inl Cpp_exception"
    by (simp add: no_pool_state_def st run_simps)
  then have p': "py_initialize True False None (Devices_int 0) False None no_pool_state
       = (Inl Cpp_exception,
          snd (py_initialize True False None (Devices_int 0) False None no_pool_state))"
    by (metis prod.collapse)
  from initialize_failure_not_atomic [OF w p] initialize_failure_not_atomic [OF w' p']
       w i f w' i' f'
  show ?thesis
    by (simp add: st)
qed

subsection \<open>The logging adaptor\<close>



text \<open>The check for an empty name is made on the value taken from the environment
  only. A name passed by the caller, empty or not, never meets the \<open>TypeError\<close>: what
  happens to it is for the constructor of the wrapper to say.\<close>

lemma explicit_name_never_type_error:
  "fst (LoggingResourceAdaptor up (Some f) s) \<noteq> Inl TypeError"
  by (simp add: LoggingResourceAdaptor_def construct_eq split: option.splits)

text \<open>
  Claim C8. \<open>_flush_logs()\<close> acts on the installed default only. When the default is a
  logging adaptor, the records its wrapper has buffered are written to its sink; when
  it is not, the call raises and changes nothing. The wrapper of every other allocator
  is as it was.
\<close>

theorem flush_logs_default_only:
  assumes "py_flush_logs s = (r, s')"
  shows "objs s' = objs s \<and> global_mr s' = global_mr s \<and> held s' = held s
       \<and> default_resource s' = default_resource s
       \<and> (default_c_obj s \<noteq> Some p \<longrightarrow> lookup (wrappers s') p = lookup (wrappers s) p)
       \<and> (get_default_resource_type s = Some LoggingResourceAdaptor_class
            \<and> default_c_obj s = Some q
            \<and> lookup (wrappers s) q
                = Some (logging_resource_adaptor_wrapper up f buffered written)
          \<longrightarrow> r = Inr ()
              \<and> lookup (wrappers s') q
                  = Some (logging_resource_adaptor_wrapper up f [] (written @ buffered)))
       \<and> (get_default_resource_type s \<noteq> Some LoggingResourceAdaptor_class
          \<longrightarrow> (r = Inl AttributeError \<or> r = Inl Undefined_access) \<and> s' = s)"
  using assms
  by (auto simp: py_flush_logs_def LoggingResourceAdaptor_flush_def default_c_obj_def
        get_default_resource_type_def lookup_update dest: lookup_Some_less
        split: option.splits if_splits)


theorem flush_logs_default_only_witness:
  "default_c_obj logging_state = Some 1
   \<and> get_default_resource_type logging_state = Some LoggingResourceAdaptor_class
   \<and> fst (py_flush_logs logging_state) = Inr ()
   \<and> lookup (wrappers (snd (py_flush_logs logging_state))) 1
       = Some (logging_resource_adaptor_wrapper (Some 0) ''rmm.log'' []
                 [(Log_allocate, 4096, 256)])
   \<and> lookup (wrappers (snd (py_flush_logs logging_state))) 2
       = Some (logging_resource_adaptor_wrapper (Some 0) ''other.log''
                 [(Log_allocate, 8192, 64)] [])
   \<and> get_default_resource_type installed_state = Some CudaMemoryResource_class
   \<and> fst (py_flush_logs installed_state) = Inl AttributeError
   \<and> snd (py_flush_logs installed_state) = installed_state"
proof -
  have st: "installed_state =
     \<lparr>objs = [\<lparr>cls = MemoryResource_class, c_obj = None\<rparr>,
              \<lparr>cls = CudaMemoryResource_class, c_obj = Some 0\<rparr>],
      wrappers = [cuda_memory_resource_wrapper],
      held = [], global_mr = Some 1, default_resource = Some 0, environ = Map.empty,
      wrapper_ctor_raises = never_raises\<rparr>"
    by (simp add: installed_state_def run_simps)
  have d: "default_c_obj logging_state = Some 1"
    and t: "get_default_resource_type logging_state = Some LoggingResourceAdaptor_class"
    and w1: "lookup (wrappers logging_state) 1
       = Some (logging_resource_adaptor_wrapper (Some 0) ''rmm.log''
                 [(Log_allocate, 4096, 256)] [])"
    and w2: "lookup (wrappers logging_state) 2
       = Some (logging_resource_adaptor_wrapper (Some 0) ''other.log''
                 [(Log_allocate, 8192, 64)] [])"
    by (simp_all add: logging_state_def default_c_obj_def get_default_resource_type_def
          lookup_def)
  have t': "get_default_resource_type installed_state = Some CudaMemoryResource_class"
    by (simp add: st get_default_resource_type_def lookup_def)
  have e: "fst (py_flush_logs installed_state) = Inl AttributeError"
    by (simp add: st py_flush_logs_def lookup_def)
  from flush_logs_default_only
         [OF prod.collapse [symmetric], of logging_state 2 1 "Some 0" "''rmm.log''"
            "[(Log_allocate, 4096, 256)]" "[]"]
       flush_logs_default_only [OF prod.collapse [symmetric], of installed_state]
       d t w1 w2 t' e
  show ?thesis by simp
qed


end
